theory Spec2Isabelle
  imports Main "HOL-Library.Word"
begin

unbundle bit_operations_syntax

section \<open>The emitter of \<open>tvm/contrib/gemmini/helpers.py\<close>\<close>

text \<open>
  \<open>create_header_file\<close> turns a numpy array into a C declaration (appended to
  \<open><name>.h\<close>) and a C definition (appended to \<open><name>.c\<close>), followed, when \<open>debug\<close> is
  set, by a commented dump of the array and of an optional array of weights. The
  embedding below follows the function line by line.

  Modelling conventions.
  \<^item> Files: the file system is a map from resolved paths to file contents; opening a
    file in mode \<open>a+\<close> and writing to it appends to the content, creating the file
    when it is absent. Opening never fails (the output directory exists and is
    writable), and \<open>resolve\<close> is the identity (paths are given resolved).
  \<^item> Arrays: an array is its shape together with its elements in row-major order,
    typed by the element kind. The elements are the bit patterns numpy stores:
    an \<open>int8\<close> element is a byte read in two's complement, a \<open>float32\<close> element is
    its 32 bits.
  \<^item> Text of numpy values: numpy's conversion of a \<open>float32\<close> scalar to text is library
    code; it is the parameter \<open>float_str\<close> of the model. So is numpy's text of an
    array and of a scalar of a kind other than the four the emitter supports, the
    parameter \<open>array_str\<close>; only the dump uses it.
  \<^item> Errors: a raise of the source is a value of \<open>error\<close>, returned together with
    the file system as the writes made before the raise left it.
\<close>

subsection \<open>Errors, arrays\<close>

datatype error =
    AssertionError string
  | OverflowError
  | IndexError

datatype dtype = float32 | int8 | uint8 | uint32 | other_dtype string

text \<open>
  The elements of an array, by element kind. An array of a kind the emitter does not
  support carries the name of its kind and the raw bytes of each of its elements.
\<close>

datatype buffer =
    Float32s "32 word list"
  | Int8s "8 word list"
  | UInt8s "8 word list"
  | UInt32s "32 word list"
  | Others string "8 word list list"

record ndarray =
  shape :: "nat list"
  elems :: buffer

text \<open>A numpy scalar taken out of a flattened array.\<close>

datatype scalar = SFloat "32 word" | SInt int

fun buffer_dtype :: "buffer \<Rightarrow> dtype" where
  "buffer_dtype (Float32s xs) = float32"
| "buffer_dtype (Int8s xs) = int8"
| "buffer_dtype (UInt8s xs) = uint8"
| "buffer_dtype (UInt32s xs) = uint32"
| "buffer_dtype (Others nm items) = other_dtype nm"

definition dtype_of :: "ndarray \<Rightarrow> dtype" where
  "dtype_of a = buffer_dtype (elems a)"

text \<open>\<open>tensor_data.size\<close>: the number of elements, the product of the shape.\<close>

definition size_of :: "ndarray \<Rightarrow> nat" where
  "size_of a = prod_list (shape a)"

text \<open>\<open>tensor_data.flatten()\<close>, for the kinds whose elements the emitter reads.\<close>

fun flatten_buffer :: "buffer \<Rightarrow> scalar list" where
  "flatten_buffer (Float32s xs) = map SFloat xs"
| "flatten_buffer (Int8s ws) = map (\<lambda>w. SInt (sint w)) ws"
| "flatten_buffer (UInt8s ws) = map (\<lambda>w. SInt (uint w)) ws"
| "flatten_buffer (UInt32s ws) = map (\<lambda>w. SInt (uint w)) ws"

definition flatten :: "ndarray \<Rightarrow> scalar list" where
  "flatten a = flatten_buffer (elems a)"

text \<open>The four bytes of a 32-bit element, in the (little-endian) order of the host.\<close>

definition bytes32 :: "32 word \<Rightarrow> 8 word list" where
  "bytes32 w = [ucast w, ucast (drop_bit 8 w), ucast (drop_bit 16 w), ucast (drop_bit 24 w)]"

text \<open>\<open>tensor_data.tobytes()\<close>.\<close>

fun buffer_bytes :: "buffer \<Rightarrow> 8 word list" where
  "buffer_bytes (Float32s xs) = concat (map bytes32 xs)"
| "buffer_bytes (Int8s ws) = ws"
| "buffer_bytes (UInt8s ws) = ws"
| "buffer_bytes (UInt32s ws) = concat (map bytes32 ws)"
| "buffer_bytes (Others nm items) = concat items"

definition tobytes :: "ndarray \<Rightarrow> 8 word list" where
  "tobytes a = buffer_bytes (elems a)"

text \<open>
  An array is well formed when its shape accounts for its elements
  (\<open>size = len(flatten())\<close>, which numpy guarantees).
\<close>

fun buffer_count :: "buffer \<Rightarrow> nat" where
  "buffer_count (Float32s xs) = length xs"
| "buffer_count (Int8s ws) = length ws"
| "buffer_count (UInt8s ws) = length ws"
| "buffer_count (UInt32s ws) = length ws"
| "buffer_count (Others nm items) = length items"

definition wf_ndarray :: "ndarray \<Rightarrow> bool" where
  "wf_ndarray a = (size_of a = buffer_count (elems a))"

subsection \<open>Text of numbers\<close>

definition dquote :: string where
  "dquote = [CHR 0x22]"

definition digit_char :: "nat \<Rightarrow> char" where
  "digit_char d = ''0123456789abcdef'' ! d"

text \<open>Python's \<open>str\<close> of an integer.\<close>

fun str_nat :: "nat \<Rightarrow> string" where
  "str_nat n = (if n < 10 then [digit_char n] else str_nat (n div 10) @ [digit_char (n mod 10)])"

declare str_nat.simps [simp del]

definition str_int :: "int \<Rightarrow> string" where
  "str_int i = (if i < 0 then ''-'' @ str_nat (nat (- i)) else str_nat (nat i))"

text \<open>\<open>bytes.hex()\<close>: two lower-case hexadecimal digits for each byte.\<close>

definition hex_byte :: "8 word \<Rightarrow> string" where
  "hex_byte b = [digit_char (unat b div 16), digit_char (unat b mod 16)]"

definition hex :: "8 word list \<Rightarrow> string" where
  "hex bs = concat (map hex_byte bs)"

text \<open>\<open>int.to_bytes(length=1, byteorder="big")\<close>: unsigned, one byte, or OverflowError.\<close>

definition to_bytes1 :: "int \<Rightarrow> error + 8 word list" where
  "to_bytes1 n = (if 0 \<le> n \<and> n < 256 then Inr [word_of_int n] else Inl OverflowError)"

text \<open>The text \<open>f"{x}"\<close> of a numpy scalar.\<close>

fun scalar_str :: "(32 word \<Rightarrow> string) \<Rightarrow> scalar \<Rightarrow> string" where
  "scalar_str float_str (SFloat w) = float_str w"
| "scalar_str float_str (SInt i) = str_int i"

text \<open>
  \<open>x < 0\<close> and \<open>int(x)\<close> on a scalar of an integer kind; the emitter applies them to
  \<open>int8\<close> and \<open>uint8\<close> elements only.
\<close>

fun scalar_neg :: "scalar \<Rightarrow> bool" where
  "scalar_neg (SInt i) = (i < 0)"

fun scalar_int :: "scalar \<Rightarrow> int" where
  "scalar_int (SInt i) = i"

text \<open>Python's \<open>xs[k]\<close> at a non-negative index and the slice \<open>s[i:j]\<close>.\<close>

definition index :: "'a list \<Rightarrow> nat \<Rightarrow> error + 'a" where
  "index xs k = (if k < length xs then Inr (xs ! k) else Inl IndexError)"

definition py_slice :: "'a list \<Rightarrow> nat \<Rightarrow> nat \<Rightarrow> 'a list" where
  "py_slice xs i j = take (j - i) (drop i xs)"

text \<open>\<open>range(0, n, 2)\<close>.\<close>

definition range2 :: "nat \<Rightarrow> nat list" where
  "range2 n = map (\<lambda>k. 2 * k) [0 ..< (n + 1) div 2]"

subsection \<open>Paths and files\<close>

type_synonym path = string
type_synonym fs = "path \<rightharpoonup> string"

text \<open>\<open>Path.suffix\<close> and \<open>Path.with_suffix\<close> on the final component of a path.\<close>

definition final_name :: "path \<Rightarrow> string" where
  "final_name p = rev (takeWhile (\<lambda>c. c \<noteq> CHR ''/'') (rev p))"

definition suffix_of :: "path \<Rightarrow> string" where
  "suffix_of p =
     (let nm = final_name p;
          ext = takeWhile (\<lambda>c. c \<noteq> CHR ''.'') (rev nm)
      in if length ext < length nm - 1 \<and> 0 < length ext \<and> length ext < length nm
         then CHR ''.'' # rev ext else [])"

definition with_suffix :: "path \<Rightarrow> string \<Rightarrow> path" where
  "with_suffix p s = take (length p - length (suffix_of p)) p @ s"

definition raw_header_path :: "string \<Rightarrow> string \<Rightarrow> path" where
  "raw_header_path output_path name = with_suffix (output_path @ ''/'' @ name) ''.h''"

definition raw_source_path :: "string \<Rightarrow> string \<Rightarrow> path" where
  "raw_source_path output_path name = with_suffix (output_path @ ''/'' @ name) ''.c''"

definition is_file :: "fs \<Rightarrow> path \<Rightarrow> bool" where
  "is_file f p = (f p \<noteq> None)"

definition content :: "fs \<Rightarrow> path \<Rightarrow> string" where
  "content f p = (case f p of None \<Rightarrow> [] | Some c \<Rightarrow> c)"

text \<open>\<open>with open(p, "a+") as file: file.write(s)\<close>.\<close>

definition append_file :: "fs \<Rightarrow> path \<Rightarrow> string \<Rightarrow> fs" where
  "append_file f p s = f(p \<mapsto> content f p @ s)"

subsection \<open>The emitter\<close>

text \<open>Lines 70 to 83: the C type name and the alignment of an element kind.\<close>

definition resolve_type :: "dtype \<Rightarrow> error + (string \<times> nat)" where
  "resolve_type d =
     (if d = float32 then Inr (''float'', 32)
      else if d = int8 then Inr (''int8_t'', 16)
      else if d = uint8 then Inr (''uint8_t'', 16)
      else if d = uint32 then Inr (''uint32_t'', 16)
      else Inl (AssertionError (''Type '' @ (case d of other_dtype nm \<Rightarrow> nm) @ '' is not supported!'')))"

text \<open>Lines 86 to 89: the two lines appended to the declaration file.\<close>

definition header_text :: "string \<Rightarrow> string \<Rightarrow> nat \<Rightarrow> string" where
  "header_text ty tensor_name n =
     ''#define '' @ tensor_name @ ''_len '' @ str_nat n @ ''\<newline>''
     @ ''extern '' @ ty @ '' '' @ tensor_name @ ''['' @ tensor_name @ ''_len];\<newline>''"

text \<open>
  Lines 96 to 100: the opening line of the definition. The section is \<open>None\<close> when the
  caller passes Python's \<open>None\<close>; \<open>if section\<close> holds for a non-empty string only.
\<close>

definition truthy :: "string option \<Rightarrow> bool" where
  "truthy s = (case s of None \<Rightarrow> False | Some t \<Rightarrow> t \<noteq> [])"

definition opening_line :: "string \<Rightarrow> string \<Rightarrow> string option \<Rightarrow> nat \<Rightarrow> string" where
  "opening_line ty tensor_name section align =
     (if truthy section
      then ty @ '' '' @ tensor_name @ ''[] __attribute__((section('' @ dquote @ the section @ dquote
           @ ''), aligned('' @ str_nat align @ ''))) = {''
      else ty @ '' '' @ tensor_name @ ''[] __attribute__((aligned('' @ str_nat align @ ''))) = {'')"

text \<open>Lines 105 and 106: every element as its text, each followed by a comma.\<close>

fun write_scalars :: "(32 word \<Rightarrow> string) \<Rightarrow> scalar list \<Rightarrow> string \<Rightarrow> string" where
  "write_scalars float_str [] out = out"
| "write_scalars float_str (x # xs) out = write_scalars float_str xs (out @ scalar_str float_str x @ '','')"

text \<open>
  Lines 110 to 117: the literal of the element at the byte-pair index \<open>i\<close>
  (\<open>int(i / 2)\<close> is \<open>i div 2\<close>).
\<close>

definition byte_literal :: "string \<Rightarrow> scalar list \<Rightarrow> nat \<Rightarrow> error + string" where
  "byte_literal data_hexstr flat i =
     (case index flat (i div 2) of
        Inl e \<Rightarrow> Inl e
      | Inr x \<Rightarrow>
          if scalar_neg x
          then (case to_bytes1 (NOT (scalar_int x) + 1) of
                  Inl e \<Rightarrow> Inl e
                | Inr bs \<Rightarrow> Inr (''-0x'' @ hex bs))
          else Inr (''+0x'' @ py_slice data_hexstr i (i + 2)))"

text \<open>
  Lines 109 to 119: the loop over the byte-pair indices, with the text written so
  far; a raise leaves that text in the file.
\<close>

fun write_bytes :: "string \<Rightarrow> scalar list \<Rightarrow> nat list \<Rightarrow> string \<Rightarrow> error option \<times> string" where
  "write_bytes data_hexstr flat [] out = (None, out)"
| "write_bytes data_hexstr flat (i # is) out =
     (case byte_literal data_hexstr flat i of
        Inl e \<Rightarrow> (Some e, out)
      | Inr lit \<Rightarrow>
          write_bytes data_hexstr flat is
            (out @ lit @ (if int i \<noteq> (int (length flat) - 1) * 2 then '','' else [])))"

text \<open>Lines 101 to 120: the text written after the opening line.\<close>

definition initializer_body :: "(32 word \<Rightarrow> string) \<Rightarrow> ndarray \<Rightarrow> error option \<times> string" where
  "initializer_body float_str tensor_data =
     (let data_hexstr = hex (tobytes tensor_data);
          flat = flatten tensor_data
      in if dtype_of tensor_data = float32 \<or> dtype_of tensor_data = uint32
         then (None, write_scalars float_str flat [] @ ''};\<newline>\<newline>'')
         else (case write_bytes data_hexstr flat (range2 (length data_hexstr)) [] of
                 (None, out) \<Rightarrow> (None, out @ ''};\<newline>\<newline>'')
               | (Some e, out) \<Rightarrow> (Some e, out)))"

subsection \<open>The commented dump\<close>

text \<open>
  Indexing \<open>a[i]\<close>: the part of the array at index \<open>i\<close> of its first dimension, one
  dimension less. An array without dimension is a scalar and has no index.
\<close>

fun buffer_slice :: "buffer \<Rightarrow> nat \<Rightarrow> nat \<Rightarrow> buffer" where
  "buffer_slice (Float32s xs) i n = Float32s (take n (drop i xs))"
| "buffer_slice (Int8s ws) i n = Int8s (take n (drop i ws))"
| "buffer_slice (UInt8s ws) i n = UInt8s (take n (drop i ws))"
| "buffer_slice (UInt32s ws) i n = UInt32s (take n (drop i ws))"
| "buffer_slice (Others nm items) i n = Others nm (take n (drop i items))"

definition getitem :: "ndarray \<Rightarrow> nat \<Rightarrow> error + ndarray" where
  "getitem a i =
     (case shape a of
        [] \<Rightarrow> Inl IndexError
      | d # ds \<Rightarrow>
          if i < d
          then Inr \<lparr>shape = ds, elems = buffer_slice (elems a) (i * prod_list ds) (prod_list ds)\<rparr>
          else Inl IndexError)"

text \<open>\<open>a[i][j][k][l]\<close>.\<close>

definition getitem4 :: "ndarray \<Rightarrow> nat \<Rightarrow> nat \<Rightarrow> nat \<Rightarrow> nat \<Rightarrow> error + ndarray" where
  "getitem4 a i j k l =
     (case getitem a i of
        Inl e \<Rightarrow> Inl e
      | Inr b \<Rightarrow>
          (case getitem b j of
             Inl e \<Rightarrow> Inl e
           | Inr c \<Rightarrow>
               (case getitem c k of
                  Inl e \<Rightarrow> Inl e
                | Inr d \<Rightarrow> getitem d l)))"

text \<open>
  The text \<open>f"{x}"\<close> of an indexed value: the text of the scalar when four indices
  reach an element of a supported kind, numpy's text of the value otherwise.
\<close>

definition format_item :: "(32 word \<Rightarrow> string) \<Rightarrow> (ndarray \<Rightarrow> string) \<Rightarrow> ndarray \<Rightarrow> string" where
  "format_item float_str array_str x =
     (if shape x = [] \<and> dtype_of x \<in> {float32, int8, uint8, uint32}
      then scalar_str float_str (hd (flatten x))
      else array_str x)"

text \<open>
  A \<open>for\<close> loop whose body writes to the file: the body gets the loop variable and
  the text written so far; a raise in the body ends the loop.
\<close>

fun for_each :: "'a list \<Rightarrow> ('a \<Rightarrow> string \<Rightarrow> error option \<times> string) \<Rightarrow> string \<Rightarrow> error option \<times> string" where
  "for_each [] body out = (None, out)"
| "for_each (x # xs) body out =
     (case body x out of
        (None, out') \<Rightarrow> for_each xs body out'
      | (Some e, out') \<Rightarrow> (Some e, out'))"

text \<open>Lines 123 to 131: the dump of \<open>tensor_data\<close>, from the innermost loop outwards.\<close>

definition tab :: string where
  "tab = [CHR 0x09]"

definition dump_col ::
  "(32 word \<Rightarrow> string) \<Rightarrow> (ndarray \<Rightarrow> string) \<Rightarrow> ndarray \<Rightarrow> nat \<Rightarrow> nat \<Rightarrow> nat \<Rightarrow> nat \<Rightarrow> string
     \<Rightarrow> error option \<times> string" where
  "dump_col float_str array_str tensor_data n ch row col out =
     (case getitem4 tensor_data n row col ch of
        Inl e \<Rightarrow> (Some e, out)
      | Inr x \<Rightarrow> (None, out @ format_item float_str array_str x @ tab))"

definition dump_row ::
  "(32 word \<Rightarrow> string) \<Rightarrow> (ndarray \<Rightarrow> string) \<Rightarrow> ndarray \<Rightarrow> nat \<Rightarrow> nat \<Rightarrow> nat \<Rightarrow> string
     \<Rightarrow> error option \<times> string" where
  "dump_row float_str array_str tensor_data n ch row out =
     (case index (shape tensor_data) 2 of
        Inl e \<Rightarrow> (Some e, out)
      | Inr s2 \<Rightarrow>
          (case for_each [0 ..< s2] (dump_col float_str array_str tensor_data n ch row) out of
             (None, out') \<Rightarrow> (None, out' @ ''\<newline>'')
           | (Some e, out') \<Rightarrow> (Some e, out')))"

definition dump_channel ::
  "(32 word \<Rightarrow> string) \<Rightarrow> (ndarray \<Rightarrow> string) \<Rightarrow> ndarray \<Rightarrow> nat \<Rightarrow> nat \<Rightarrow> string
     \<Rightarrow> error option \<times> string" where
  "dump_channel float_str array_str tensor_data n ch out =
     (let out1 = out @ ''Channel '' @ str_nat ch @ '':\<newline>''
      in case index (shape tensor_data) 1 of
           Inl e \<Rightarrow> (Some e, out1)
         | Inr s1 \<Rightarrow> for_each [0 ..< s1] (dump_row float_str array_str tensor_data n ch) out1)"

definition dump_batch ::
  "(32 word \<Rightarrow> string) \<Rightarrow> (ndarray \<Rightarrow> string) \<Rightarrow> ndarray \<Rightarrow> nat \<Rightarrow> string
     \<Rightarrow> error option \<times> string" where
  "dump_batch float_str array_str tensor_data n out =
     (case index (shape tensor_data) 3 of
        Inl e \<Rightarrow> (Some e, out)
      | Inr s3 \<Rightarrow> for_each [0 ..< s3] (dump_channel float_str array_str tensor_data n) out)"

definition dump_tensor ::
  "(32 word \<Rightarrow> string) \<Rightarrow> (ndarray \<Rightarrow> string) \<Rightarrow> ndarray \<Rightarrow> string \<Rightarrow> error option \<times> string" where
  "dump_tensor float_str array_str tensor_data out =
     (let out1 = out @ ''/*\<newline>''
      in case index (shape tensor_data) 0 of
           Inl e \<Rightarrow> (Some e, out1)
         | Inr s0 \<Rightarrow>
             (case for_each [0 ..< s0] (dump_batch float_str array_str tensor_data) out1 of
                (None, out') \<Rightarrow> (None, out' @ ''*/\<newline>'')
              | (Some e, out') \<Rightarrow> (Some e, out')))"

text \<open>Lines 134 to 143: the dump of \<open>weights\<close>.\<close>

definition dump_weight_col ::
  "(32 word \<Rightarrow> string) \<Rightarrow> (ndarray \<Rightarrow> string) \<Rightarrow> ndarray \<Rightarrow> nat \<Rightarrow> nat \<Rightarrow> nat \<Rightarrow> nat \<Rightarrow> string
     \<Rightarrow> error option \<times> string" where
  "dump_weight_col float_str array_str weights o_ch i_ch row col out =
     (case getitem4 weights row col i_ch o_ch of
        Inl e \<Rightarrow> (Some e, out)
      | Inr x \<Rightarrow> (None, out @ format_item float_str array_str x @ tab))"

definition dump_weight_row ::
  "(32 word \<Rightarrow> string) \<Rightarrow> (ndarray \<Rightarrow> string) \<Rightarrow> ndarray \<Rightarrow> nat \<Rightarrow> nat \<Rightarrow> nat \<Rightarrow> string
     \<Rightarrow> error option \<times> string" where
  "dump_weight_row float_str array_str weights o_ch i_ch row out =
     (case index (shape weights) 1 of
        Inl e \<Rightarrow> (Some e, out)
      | Inr s1 \<Rightarrow>
          (case for_each [0 ..< s1] (dump_weight_col float_str array_str weights o_ch i_ch row) out of
             (None, out') \<Rightarrow> (None, out' @ ''\<newline>'')
           | (Some e, out') \<Rightarrow> (Some e, out')))"

definition dump_input_channel ::
  "(32 word \<Rightarrow> string) \<Rightarrow> (ndarray \<Rightarrow> string) \<Rightarrow> ndarray \<Rightarrow> nat \<Rightarrow> nat \<Rightarrow> string
     \<Rightarrow> error option \<times> string" where
  "dump_input_channel float_str array_str weights o_ch i_ch out =
     (let out1 = out @ ''Input channel '' @ str_nat i_ch @ '':\<newline>''
      in case index (shape weights) 0 of
           Inl e \<Rightarrow> (Some e, out1)
         | Inr s0 \<Rightarrow> for_each [0 ..< s0] (dump_weight_row float_str array_str weights o_ch i_ch) out1)"

definition dump_output_channel ::
  "(32 word \<Rightarrow> string) \<Rightarrow> (ndarray \<Rightarrow> string) \<Rightarrow> ndarray \<Rightarrow> nat \<Rightarrow> string
     \<Rightarrow> error option \<times> string" where
  "dump_output_channel float_str array_str weights o_ch out =
     (let out1 = out @ ''Output channel '' @ str_nat o_ch @ '':\<newline>''
      in case index (shape weights) 2 of
           Inl e \<Rightarrow> (Some e, out1)
         | Inr s2 \<Rightarrow> for_each [0 ..< s2] (dump_input_channel float_str array_str weights o_ch) out1)"

definition dump_weights ::
  "(32 word \<Rightarrow> string) \<Rightarrow> (ndarray \<Rightarrow> string) \<Rightarrow> ndarray \<Rightarrow> string \<Rightarrow> error option \<times> string" where
  "dump_weights float_str array_str weights out =
     (let out1 = out @ ''/*\<newline>''
      in case index (shape weights) 3 of
           Inl e \<Rightarrow> (Some e, out1)
         | Inr s3 \<Rightarrow>
             (case for_each [0 ..< s3] (dump_output_channel float_str array_str weights) out1 of
                (None, out') \<Rightarrow> (None, out' @ ''*/\<newline>'')
              | (Some e, out') \<Rightarrow> (Some e, out')))"

text \<open>
  Lines 122 to 143: the text written after the initializer. \<open>weights\<close> is \<open>None\<close> when
  the caller passes Python's \<open>None\<close>, the default.
\<close>

definition debug_text ::
  "(32 word \<Rightarrow> string) \<Rightarrow> (ndarray \<Rightarrow> string) \<Rightarrow> ndarray \<Rightarrow> bool \<Rightarrow> ndarray option
     \<Rightarrow> error option \<times> string" where
  "debug_text float_str array_str tensor_data debug weights =
     (if debug then
        (case dump_tensor float_str array_str tensor_data [] of
           (Some e, out) \<Rightarrow> (Some e, out)
         | (None, out) \<Rightarrow>
             (case weights of
                None \<Rightarrow> (None, out)
              | Some w \<Rightarrow> dump_weights float_str array_str w out))
      else (None, []))"

text \<open>Lines 101 to 143: all the text written after the opening line.\<close>

definition emitted_text ::
  "(32 word \<Rightarrow> string) \<Rightarrow> (ndarray \<Rightarrow> string) \<Rightarrow> ndarray \<Rightarrow> bool \<Rightarrow> ndarray option
     \<Rightarrow> error option \<times> string" where
  "emitted_text float_str array_str tensor_data debug weights =
     (case initializer_body float_str tensor_data of
        (Some e, out) \<Rightarrow> (Some e, out)
      | (None, out) \<Rightarrow>
          (case debug_text float_str array_str tensor_data debug weights of
             (err, dump) \<Rightarrow> (err, out @ dump)))"

subsection \<open>The whole call\<close>

text \<open>
  \<open>create_header_file(name, section, tensor_name, tensor_data, output_path, debug, weights)\<close>:
  the error raised, if any, and the file system after the call.
\<close>

definition create_header_file ::
  "(32 word \<Rightarrow> string) \<Rightarrow> (ndarray \<Rightarrow> string) \<Rightarrow> string \<Rightarrow> string option \<Rightarrow> string \<Rightarrow> ndarray
     \<Rightarrow> string \<Rightarrow> bool \<Rightarrow> ndarray option \<Rightarrow> fs \<Rightarrow> error option \<times> fs" where
  "create_header_file float_str array_str name section tensor_name tensor_data output_path debug weights f =
     (let hp = raw_header_path output_path name;
          sp = raw_source_path output_path name
      in case resolve_type (dtype_of tensor_data) of
           Inl e \<Rightarrow> (Some e, f)
         | Inr (ty, align) \<Rightarrow>
             let f1 = append_file f hp (header_text ty tensor_name (size_of tensor_data));
                 f2 = (if \<not> is_file f1 sp then append_file f1 sp ''#include <stdint.h>\<newline>'' else f1);
                 f3 = append_file f2 sp (opening_line ty tensor_name section align)
             in case emitted_text float_str array_str tensor_data debug weights of
                  (err, out) \<Rightarrow> (err, append_file f3 sp out))"

subsection \<open>The literals of byte kinds, in the words of the specification\<close>

text \<open>
  Section 4.1 of the specification: a negative \<open>int8\<close> element is rendered as \<open>-0x\<close> and
  the two hexadecimal digits of \<open>(~value) + 1\<close> restricted to one byte; any other
  \<open>int8\<close> element and every \<open>uint8\<close> element as \<open>+0x\<close> and the two hexadecimal digits of
  its raw byte.
\<close>

definition spec_int8_literal :: "8 word \<Rightarrow> string" where
  "spec_int8_literal w =
     (if sint w < 0 then ''-0x'' @ hex_byte (word_of_int (NOT (sint w) + 1)) else ''+0x'' @ hex_byte w)"

definition spec_uint8_literal :: "8 word \<Rightarrow> string" where
  "spec_uint8_literal w = ''+0x'' @ hex_byte w"

subsection \<open>Reading an initializer back\<close>










subsection \<open>numpy's text of a NaN\<close>



section \<open>Properties of the model\<close>

subsection \<open>Paths, text and loops\<close>

lemma paths_distinct: "raw_header_path output_path name \<noteq> raw_source_path output_path name"
  by (simp add: raw_header_path_def raw_source_path_def with_suffix_def)

lemma write_scalars_eq:
  "write_scalars float_str xs out = out @ concat (map (\<lambda>x. scalar_str float_str x @ '','') xs)"
  by (induction xs arbitrary: out) simp_all

lemma length_hex_byte: "length (hex_byte b) = 2"
  by (simp add: hex_byte_def)

lemma hex_Cons: "hex (b # bs) = hex_byte b @ hex bs"
  by (simp add: hex_def)

lemma length_hex: "length (hex bs) = 2 * length bs"
  by (induction bs) (simp_all add: hex_def length_hex_byte)

lemma slice_hex: "k < length bs \<Longrightarrow> py_slice (hex bs) (2 * k) (2 * k + 2) = hex_byte (bs ! k)"
proof (induction bs arbitrary: k)
  case Nil
  then show ?case by simp
next
  case (Cons b bs)
  show ?case
  proof (cases k)
    case 0
    then show ?thesis by (simp add: py_slice_def hex_Cons length_hex_byte)
  next
    case (Suc j)
    with Cons.prems have "j < length bs" by simp
    from Cons.IH [OF this] show ?thesis
      using Suc by (simp add: py_slice_def hex_Cons length_hex_byte)
  qed
qed

lemma range2_even: "range2 (2 * n) = map (\<lambda>k. 2 * k) [0 ..< n]"
  by (simp add: range2_def)

lemma write_bytes_ok:
  "\<forall>i \<in> set js. byte_literal h f i = Inr (lit i) \<Longrightarrow>
   write_bytes h f js out =
     (None, out @ concat (map (\<lambda>i. lit i @ (if int i \<noteq> (int (length f) - 1) * 2 then '','' else [])) js))"
  by (induction js arbitrary: out) simp_all

lemma hex_single: "hex [b] = hex_byte b"
  by (simp add: hex_def)

lemma slice_hex_Suc: "k < length bs \<Longrightarrow> py_slice (hex bs) (2 * k) (Suc (Suc (2 * k))) = hex_byte (bs ! k)"
  using slice_hex [of k bs] by simp

lemma to_bytes1_neg:
  fixes w :: "8 word"
  assumes "sint w < 0"
  shows "to_bytes1 (NOT (sint w) + 1) = Inr [word_of_int (NOT (sint w) + 1)]"
proof -
  have "- 128 \<le> sint w" using sint_ge [of w] by simp
  with assms show ?thesis by (simp add: to_bytes1_def not_int_def)
qed

lemma byte_literal_int8:
  assumes "k < length ws"
  shows "byte_literal (hex ws) (map (\<lambda>w. SInt (sint w)) ws) (2 * k) = Inr (spec_int8_literal (ws ! k))"
  using assms
  by (simp add: byte_literal_def index_def to_bytes1_neg hex_single slice_hex_Suc spec_int8_literal_def)

lemma byte_literal_uint8:
  assumes "k < length ws"
  shows "byte_literal (hex ws) (map (\<lambda>w. SInt (uint w)) ws) (2 * k) = Inr (spec_uint8_literal (ws ! k))"
  using assms
  by (simp add: byte_literal_def index_def slice_hex_Suc spec_uint8_literal_def)

lemma write_bytes_tokens:
  assumes "length f = n" and "\<forall>k < n. byte_literal h f (2 * k) = Inr (tok k)"
  shows "write_bytes h f (range2 (2 * n)) [] =
           (None, concat (map (\<lambda>k. tok k @ (if Suc k \<noteq> n then '','' else [])) [0 ..< n]))"
proof -
  have "\<forall>i \<in> set (range2 (2 * n)). byte_literal h f i = Inr (tok (i div 2))"
    using assms(2) by (auto simp: range2_even)
  from write_bytes_ok [OF this, of "[]"] assms(1) show ?thesis
    by (auto simp: range2_even comp_def intro!: arg_cong [where f = concat])
qed

lemma concat_sep:
  "concat (map (\<lambda>k. tok k @ (if Suc k \<noteq> n then '','' else [])) [0 ..< n]) =
   (if n = 0 then [] else concat (map (\<lambda>k. tok k @ '','') [0 ..< n - 1]) @ tok (n - 1))"
proof (cases n)
  case 0
  then show ?thesis by simp
next
  case (Suc m)
  have h: "map (\<lambda>k. tok k @ (if k \<noteq> m then '','' else [])) [0 ..< m] = map (\<lambda>k. tok k @ '','') [0 ..< m]"
    by (rule map_cong) simp_all
  show ?thesis unfolding Suc by (simp add: h)
qed

subsection \<open>The emitter on each element kind\<close>

lemma resolve_type_cases:
  "resolve_type (buffer_dtype (Float32s xs)) = Inr (''float'', 32)"
  "resolve_type (buffer_dtype (Int8s ws)) = Inr (''int8_t'', 16)"
  "resolve_type (buffer_dtype (UInt8s ws)) = Inr (''uint8_t'', 16)"
  "resolve_type (buffer_dtype (UInt32s vs)) = Inr (''uint32_t'', 16)"
  "resolve_type (buffer_dtype (Others nm items)) = Inl (AssertionError (''Type '' @ nm @ '' is not supported!''))"
  by (simp_all add: resolve_type_def)

lemma create_header_file_eq:
  assumes "resolve_type (dtype_of tensor_data) = Inr (ty, align)"
    and "emitted_text float_str array_str tensor_data debug weights = (err, out)"
  shows "create_header_file float_str array_str name section tensor_name tensor_data output_path debug weights f =
           (err, f(raw_header_path output_path name \<mapsto>
                     content f (raw_header_path output_path name)
                       @ header_text ty tensor_name (size_of tensor_data),
                   raw_source_path output_path name \<mapsto>
                     (case f (raw_source_path output_path name) of
                        None \<Rightarrow> ''#include <stdint.h>\<newline>'' | Some c \<Rightarrow> c)
                       @ opening_line ty tensor_name section align @ out))"
  using assms paths_distinct [of output_path name]
  by (auto simp: create_header_file_def Let_def append_file_def is_file_def content_def
           split: option.splits)

lemma body_int8:
  assumes "elems a = Int8s ws"
  shows "initializer_body float_str a =
           (None, concat (map (\<lambda>k. spec_int8_literal (ws ! k) @ (if Suc k \<noteq> length ws then '','' else []))
                    [0 ..< length ws]) @ ''};\<newline>\<newline>'')"
proof -
  have "write_bytes (hex ws) (map (\<lambda>w. SInt (sint w)) ws) (range2 (2 * length ws)) [] =
          (None, concat (map (\<lambda>k. spec_int8_literal (ws ! k) @ (if Suc k \<noteq> length ws then '','' else []))
                    [0 ..< length ws]))"
    by (rule write_bytes_tokens) (simp_all add: byte_literal_int8)
  then show ?thesis
    using assms by (simp add: initializer_body_def dtype_of_def tobytes_def flatten_def length_hex)
qed

lemma body_uint8:
  assumes "elems a = UInt8s ws"
  shows "initializer_body float_str a =
           (None, concat (map (\<lambda>k. spec_uint8_literal (ws ! k) @ (if Suc k \<noteq> length ws then '','' else []))
                    [0 ..< length ws]) @ ''};\<newline>\<newline>'')"
proof -
  have "write_bytes (hex ws) (map (\<lambda>w. SInt (uint w)) ws) (range2 (2 * length ws)) [] =
          (None, concat (map (\<lambda>k. spec_uint8_literal (ws ! k) @ (if Suc k \<noteq> length ws then '','' else []))
                    [0 ..< length ws]))"
    by (rule write_bytes_tokens) (simp_all add: byte_literal_uint8)
  then show ?thesis
    using assms by (simp add: initializer_body_def dtype_of_def tobytes_def flatten_def length_hex)
qed

lemma body_uint32:
  assumes "elems a = UInt32s vs"
  shows "initializer_body float_str a =
           (None, concat (map (\<lambda>v. str_int (uint v) @ '','') vs) @ ''};\<newline>\<newline>'')"
  using assms
  by (simp add: initializer_body_def dtype_of_def flatten_def write_scalars_eq comp_def)

lemma body_float32:
  assumes "elems a = Float32s xs"
  shows "initializer_body float_str a =
           (None, concat (map (\<lambda>x. float_str x @ '','') xs) @ ''};\<newline>\<newline>'')"
  using assms
  by (simp add: initializer_body_def dtype_of_def flatten_def write_scalars_eq comp_def)

lemma body_supported:
  assumes "dtype_of a \<in> {float32, int8, uint8, uint32}"
  shows "fst (initializer_body float_str a) = None"
proof (cases "elems a")
  case (Float32s xs) then show ?thesis by (simp add: body_float32)
next
  case (Int8s ws) then show ?thesis by (simp add: body_int8)
next
  case (UInt8s ws) then show ?thesis by (simp add: body_uint8)
next
  case (UInt32s vs) then show ?thesis by (simp add: body_uint32)
next
  case (Others nm items) with assms show ?thesis by (simp add: dtype_of_def)
qed

lemma debug_text_off: "debug_text float_str array_str tensor_data False weights = (None, [])"
  by (simp add: debug_text_def)

lemma emitted_text_supported:
  assumes "dtype_of tensor_data \<in> {float32, int8, uint8, uint32}"
  shows "emitted_text float_str array_str tensor_data debug weights =
           (fst (debug_text float_str array_str tensor_data debug weights),
            snd (initializer_body float_str tensor_data)
              @ snd (debug_text float_str array_str tensor_data debug weights))"
proof -
  obtain out where "initializer_body float_str tensor_data = (None, out)"
    using body_supported [OF assms, of float_str]
    by (cases "initializer_body float_str tensor_data") simp
  then show ?thesis
    by (simp add: emitted_text_def split: prod.splits)
qed

lemma resolve_type_supported:
  "resolve_type d = Inr (ty, align) \<Longrightarrow> d \<in> {float32, int8, uint8, uint32}"
  by (auto simp: resolve_type_def split: if_splits)

lemmas eval_defs = create_header_file_def emitted_text_def debug_text_def initializer_body_def raw_header_path_def raw_source_path_def
  with_suffix_def suffix_of_def final_name_def resolve_type_def dtype_of_def size_of_def flatten_def tobytes_def
  append_file_def content_def is_file_def header_text_def opening_line_def truthy_def dquote_def
  hex_def hex_byte_def digit_char_def range2_def byte_literal_def index_def py_slice_def to_bytes1_def
  str_int_def str_nat.simps

lemmas dump_defs = dump_tensor_def dump_batch_def dump_channel_def dump_row_def dump_col_def
  dump_weights_def dump_output_channel_def dump_input_channel_def dump_weight_row_def
  dump_weight_col_def getitem4_def getitem_def format_item_def tab_def

subsection \<open>Successful calls, separators\<close>

lemma create_header_file_supported:
  assumes "resolve_type (dtype_of tensor_data) = Inr (ty, align)"
  shows "create_header_file float_str array_str name section tensor_name tensor_data output_path debug weights f =
           (fst (debug_text float_str array_str tensor_data debug weights),
            f(raw_header_path output_path name \<mapsto>
                content f (raw_header_path output_path name)
                  @ header_text ty tensor_name (size_of tensor_data),
              raw_source_path output_path name \<mapsto>
                (case f (raw_source_path output_path name) of
                   None \<Rightarrow> ''#include <stdint.h>\<newline>'' | Some c \<Rightarrow> c)
                  @ opening_line ty tensor_name section align
                  @ snd (initializer_body float_str tensor_data)
                  @ snd (debug_text float_str array_str tensor_data debug weights)))"
  by (rule create_header_file_eq [OF assms])
     (rule emitted_text_supported [OF resolve_type_supported [OF assms]])

lemma create_header_file_success:
  assumes "create_header_file float_str array_str name section tensor_name tensor_data output_path debug weights f
             = (None, f1)"
  shows "\<exists>ty align. resolve_type (dtype_of tensor_data) = Inr (ty, align)
           \<and> fst (debug_text float_str array_str tensor_data debug weights) = None"
proof (cases "resolve_type (dtype_of tensor_data)")
  case (Inl e)
  with assms show ?thesis by (simp add: create_header_file_def Let_def)
next
  case (Inr r)
  obtain ty align where r: "r = (ty, align)" by (cases r)
  from Inr r have t: "resolve_type (dtype_of tensor_data) = Inr (ty, align)" by simp
  from create_header_file_supported [OF t, of float_str array_str name "section" tensor_name output_path debug weights f]
    assms
  have "fst (debug_text float_str array_str tensor_data debug weights) = None" by simp
  with t show ?thesis by blast
qed

lemma digit_char_mem: "d < 16 \<Longrightarrow> digit_char d \<in> set ''0123456789abcdef''"
  unfolding digit_char_def by (rule nth_mem) simp

lemma digit_char_not_comma: "d < 16 \<Longrightarrow> digit_char d \<noteq> CHR '',''"
  using digit_char_mem [of d] by auto

lemma str_nat_no_comma: "CHR '','' \<notin> set (str_nat n)"
proof (induction n rule: str_nat.induct)
  case (1 n)
  show ?case
  proof (cases "n < 10")
    case True
    then show ?thesis
      using digit_char_not_comma [of n] by (simp add: str_nat.simps [of n])
  next
    case False
    have "n mod 10 < 16" by (rule less_trans [OF mod_less_divisor]) simp_all
    with False 1 show ?thesis
      using digit_char_not_comma [of "n mod 10"] by (simp add: str_nat.simps [of n])
  qed
qed

lemma str_int_uint_no_comma: "CHR '','' \<notin> set (str_int (uint v))"
  by (simp add: str_int_def str_nat_no_comma)

lemma hex_byte_no_comma: "CHR '','' \<notin> set (hex_byte b)"
proof -
  have "unat b < 256" using unsigned_less [of b, where ?'a = nat] by simp
  then have "unat b div 16 < 16" by simp
  moreover have "unat b mod 16 < 16" by simp
  ultimately show ?thesis
    using digit_char_not_comma [of "unat b div 16"] digit_char_not_comma [of "unat b mod 16"]
    by (simp add: hex_byte_def)
qed

lemma spec_literal_no_comma:
  "CHR '','' \<notin> set (spec_int8_literal w)" "CHR '','' \<notin> set (spec_uint8_literal w)"
  by (simp_all add: spec_int8_literal_def spec_uint8_literal_def hex_byte_no_comma)

lemma sep_tokens:
  assumes "ws \<noteq> []"
  shows "concat (map (\<lambda>k. g (ws ! k) @ (if Suc k \<noteq> length ws then '','' else [])) [0 ..< length ws])
         = concat (map (\<lambda>t. t @ '','') (butlast (map g ws))) @ last (map g ws)"
proof -
  have a: "map (\<lambda>k. g (ws ! k) @ '','') [0 ..< length ws - 1] = map (\<lambda>t. t @ '','') (butlast (map g ws))"
    by (simp add: list_eq_iff_nth_eq nth_butlast)
  have b: "g (ws ! (length ws - 1)) = last (map g ws)"
    using assms by (simp add: last_map last_conv_nth)
  from assms show ?thesis
    by (simp only: concat_sep [where tok = "\<lambda>k. g (ws ! k)"] a b length_0_conv if_False)
qed

subsection \<open>Reading back what was written\<close>
























section \<open>The claims\<close>





text \<open>
  C2. Sign-magnitude rendering of the byte kinds. The text written for an \<open>int8\<close> array
  is, element by element, the literal the specification describes: \<open>-0x\<close> and the two
  hexadecimal digits of \<open>(~v) + 1\<close> for a negative element, \<open>+0x\<close> and the two digits
  of the raw byte otherwise; for a \<open>uint8\<close> array it is always \<open>+0x\<close> and the digits of
  the raw byte. So \<open>-5\<close> is written \<open>-0x05\<close>, \<open>5\<close> is written \<open>+0x05\<close> and the \<open>uint8\<close>
  value \<open>250\<close> is written \<open>+0xfa\<close>.
\<close>

theorem sign_magnitude_rendering:
  "initializer_body float_str \<lparr>shape = sh, elems = Int8s ws\<rparr>
     = (None, concat (map (\<lambda>k. spec_int8_literal (ws ! k) @ (if Suc k \<noteq> length ws then '','' else []))
                [0 ..< length ws]) @ ''};\<newline>\<newline>'')
   \<and> initializer_body float_str \<lparr>shape = sh, elems = UInt8s ws\<rparr>
     = (None, concat (map (\<lambda>k. spec_uint8_literal (ws ! k) @ (if Suc k \<noteq> length ws then '','' else []))
                [0 ..< length ws]) @ ''};\<newline>\<newline>'')
   \<and> sint (word_of_int (- 5) :: 8 word) = - 5 \<and> spec_int8_literal (word_of_int (- 5)) = ''-0x05''
   \<and> spec_int8_literal 5 = ''+0x05''
   \<and> spec_uint8_literal 250 = ''+0xfa''
   \<and> initializer_body float_str \<lparr>shape = [3], elems = Int8s [word_of_int (- 5), 5, 250]\<rparr>
     = (None, ''-0x05,+0x05,-0x06};\<newline>\<newline>'')
   \<and> initializer_body float_str \<lparr>shape = [3], elems = UInt8s [word_of_int (- 5), 5, 250]\<rparr>
     = (None, ''+0xfb,+0x05,+0xfa};\<newline>\<newline>'')"
proof -
  have "initializer_body float_str \<lparr>shape = [3], elems = Int8s [word_of_int (- 5), 5, 250]\<rparr>
     = (None, ''-0x05,+0x05,-0x06};\<newline>\<newline>'')"
    by (simp add: eval_defs upt_rec)
  moreover have "initializer_body float_str \<lparr>shape = [3], elems = UInt8s [word_of_int (- 5), 5, 250]\<rparr>
     = (None, ''+0xfb,+0x05,+0xfa};\<newline>\<newline>'')"
    by (simp add: eval_defs upt_rec)
  moreover have "spec_int8_literal (word_of_int (- 5)) = ''-0x05''" "spec_int8_literal 5 = ''+0x05''"
    "spec_uint8_literal 250 = ''+0xfa''"
    by (simp_all add: spec_int8_literal_def spec_uint8_literal_def hex_byte_def digit_char_def)
  ultimately show ?thesis
    by (simp add: body_int8 body_uint8)
qed

text \<open>
  C3. For a non-empty \<open>int8\<close> or \<open>uint8\<close> array the text written is the sequence of the
  element literals, none of which holds a comma, with a comma after each literal but
  the last: nothing stands between the last literal and the closing \<open>};\<close>. The last
  byte-pair index of the loop is \<open>(len(flatten) - 1) * 2\<close>, the index the test of
  line 118 compares with.
\<close>

theorem trailing_comma_suppressed:
  assumes "ws \<noteq> []" and "elems a = Int8s ws \<or> elems a = UInt8s ws"
  shows "\<exists>toks. length toks = length ws
           \<and> (\<forall>k < length ws. byte_literal (hex (tobytes a)) (flatten a) (2 * k) = Inr (toks ! k))
           \<and> (\<forall>t \<in> set toks. CHR '','' \<notin> set t)
           \<and> last (range2 (length (hex (tobytes a)))) = (length (flatten a) - 1) * 2
           \<and> initializer_body float_str a
               = (None, concat (map (\<lambda>t. t @ '','') (butlast toks)) @ last toks @ ''};\<newline>\<newline>'')"
proof -
  have r: "last (range2 (2 * length ws)) = (length ws - 1) * 2"
    using assms(1) by (simp add: range2_even last_map last_upt)
  from assms(2) show ?thesis
  proof
    assume e: "elems a = Int8s ws"
    show ?thesis
      apply (rule exI [of _ "map spec_int8_literal ws"])
      using assms(1) e r sep_tokens [OF assms(1), of spec_int8_literal]
      by (auto simp: body_int8 tobytes_def flatten_def byte_literal_int8 spec_literal_no_comma length_hex)
  next
    assume e: "elems a = UInt8s ws"
    show ?thesis
      apply (rule exI [of _ "map spec_uint8_literal ws"])
      using assms(1) e r sep_tokens [OF assms(1), of spec_uint8_literal]
      by (auto simp: body_uint8 tobytes_def flatten_def byte_literal_uint8 spec_literal_no_comma length_hex)
  qed
qed

theorem trailing_comma_suppressed_witness:
  "[word_of_int (- 5), 5 :: 8 word] \<noteq> []
   \<and> elems \<lparr>shape = [2], elems = Int8s [word_of_int (- 5), 5]\<rparr> = Int8s [word_of_int (- 5), 5]
   \<and> initializer_body (\<lambda>w. []) \<lparr>shape = [2], elems = Int8s [word_of_int (- 5), 5]\<rparr>
       = (None, ''-0x05,+0x05};\<newline>\<newline>'')
   \<and> (\<exists>toks. length toks = 2
         \<and> initializer_body (\<lambda>w. []) \<lparr>shape = [2], elems = Int8s [word_of_int (- 5), 5]\<rparr>
             = (None, concat (map (\<lambda>t. t @ '','') (butlast toks)) @ last toks @ ''};\<newline>\<newline>''))"
proof -
  have 1: "[word_of_int (- 5), 5 :: 8 word] \<noteq> []" by simp
  have 2: "elems \<lparr>shape = [2], elems = Int8s [word_of_int (- 5), 5]\<rparr> = Int8s [word_of_int (- 5), 5]
           \<or> elems \<lparr>shape = [2], elems = Int8s [word_of_int (- 5), 5]\<rparr> = UInt8s [word_of_int (- 5), 5]"
    by simp
  have 3: "initializer_body (\<lambda>w. []) \<lparr>shape = [2], elems = Int8s [word_of_int (- 5), 5]\<rparr>
       = (None, ''-0x05,+0x05};\<newline>\<newline>'')"
    by (simp add: eval_defs upt_rec)
  from trailing_comma_suppressed [OF 1 2, of "\<lambda>w. []"] obtain toks where
    "length toks = length [word_of_int (- 5), 5 :: 8 word]"
    "initializer_body (\<lambda>w. []) \<lparr>shape = [2], elems = Int8s [word_of_int (- 5), 5]\<rparr>
             = (None, concat (map (\<lambda>t. t @ '','') (butlast toks)) @ last toks @ ''};\<newline>\<newline>'')"
    by blast
  then have "\<exists>toks. length toks = 2
         \<and> initializer_body (\<lambda>w. []) \<lparr>shape = [2], elems = Int8s [word_of_int (- 5), 5]\<rparr>
             = (None, concat (map (\<lambda>t. t @ '','') (butlast toks)) @ last toks @ ''};\<newline>\<newline>'')"
    by (intro exI [of _ toks]) simp
  with 1 3 show ?thesis by simp
qed

text \<open>
  C4, as stated, fails for \<open>uint32\<close> (and \<open>float32\<close>): the loop of lines 105 and 106
  writes a comma after every element, so the single element \<open>7\<close> is followed by
  \<open>,};\<close> and not by \<open>};\<close>.
\<close>

theorem single_element_counterexample:
  "initializer_body (\<lambda>w. []) \<lparr>shape = [1], elems = UInt32s [7]\<rparr> = (None, ''7,};\<newline>\<newline>'')
   \<and> \<not> (\<exists>tok. CHR '','' \<notin> set tok
        \<and> initializer_body (\<lambda>w. []) \<lparr>shape = [1], elems = UInt32s [7]\<rparr> = (None, tok @ ''};\<newline>\<newline>''))"
proof (rule conjI)
  show "initializer_body (\<lambda>w. []) \<lparr>shape = [1], elems = UInt32s [7]\<rparr> = (None, ''7,};\<newline>\<newline>'')"
    by (simp add: eval_defs)
next
  show "\<not> (\<exists>tok. CHR '','' \<notin> set tok
        \<and> initializer_body (\<lambda>w. []) \<lparr>shape = [1], elems = UInt32s [7]\<rparr> = (None, tok @ ''};\<newline>\<newline>''))"
  proof
    assume "\<exists>tok. CHR '','' \<notin> set tok
          \<and> initializer_body (\<lambda>w. []) \<lparr>shape = [1], elems = UInt32s [7]\<rparr> = (None, tok @ ''};\<newline>\<newline>'')"
    then obtain tok where c: "CHR '','' \<notin> set tok"
      and e: "initializer_body (\<lambda>w. []) \<lparr>shape = [1], elems = UInt32s [7]\<rparr> = (None, tok @ ''};\<newline>\<newline>'')"
      by blast
    have "initializer_body (\<lambda>w. []) \<lparr>shape = [1], elems = UInt32s [7]\<rparr> = (None, ''7,'' @ ''};\<newline>\<newline>'')"
      by (simp add: eval_defs)
    with e have "tok @ ''};\<newline>\<newline>'' = ''7,'' @ ''};\<newline>\<newline>''" by simp
    then have "tok = ''7,''" by (simp only: append_same_eq)
    with c show False by simp
  qed
qed

text \<open>
  C4, amended. An array with a single element is written as one literal: for \<open>int8\<close>
  and \<open>uint8\<close> the literal is immediately followed by \<open>};\<close>; for \<open>uint32\<close> and
  \<open>float32\<close> the literal is followed by one comma and then \<open>};\<close>. The literals of
  the integer kinds hold no comma.
\<close>

theorem single_element:
  "initializer_body float_str \<lparr>shape = [1], elems = Int8s [w]\<rparr> = (None, spec_int8_literal w @ ''};\<newline>\<newline>'')
   \<and> initializer_body float_str \<lparr>shape = [1], elems = UInt8s [w]\<rparr> = (None, spec_uint8_literal w @ ''};\<newline>\<newline>'')
   \<and> initializer_body float_str \<lparr>shape = [1], elems = UInt32s [v]\<rparr> = (None, str_int (uint v) @ '','' @ ''};\<newline>\<newline>'')
   \<and> initializer_body float_str \<lparr>shape = [1], elems = Float32s [x]\<rparr> = (None, float_str x @ '','' @ ''};\<newline>\<newline>'')
   \<and> CHR '','' \<notin> set (spec_int8_literal w) \<and> CHR '','' \<notin> set (spec_uint8_literal w)
   \<and> CHR '','' \<notin> set (str_int (uint v))"
  by (simp add: body_int8 body_uint8 body_uint32 body_float32 spec_literal_no_comma str_int_uint_no_comma)

text \<open>
  C5. An array whose element kind is none of \<open>float32\<close>, \<open>int8\<close>, \<open>uint8\<close>, \<open>uint32\<close>
  makes the emitter raise (the assertion of line 83) and leaves the file system as
  it was: nothing is written to the declaration file or to the definition file,
  and neither is created.
\<close>

theorem unsupported_kind_atomic:
  assumes "dtype_of tensor_data \<notin> {float32, int8, uint8, uint32}"
  shows "\<exists>msg. create_header_file float_str array_str name section tensor_name tensor_data output_path debug weights f
           = (Some (AssertionError msg), f)"
proof (cases "elems tensor_data")
  case (Others nm items)
  then show ?thesis
    by (simp add: create_header_file_def Let_def dtype_of_def resolve_type_def)
qed (use assms in \<open>simp_all add: dtype_of_def\<close>)

theorem unsupported_kind_atomic_witness:
  "dtype_of \<lparr>shape = [2], elems = Others ''int16'' [[1, 0], [2, 0]]\<rparr> \<notin> {float32, int8, uint8, uint32}
   \<and> (\<exists>msg. create_header_file (\<lambda>w. []) (\<lambda>a. []) ''m'' None ''t''
               \<lparr>shape = [2], elems = Others ''int16'' [[1, 0], [2, 0]]\<rparr> ''o'' True None
               [''o/m.h'' \<mapsto> ''old''] = (Some (AssertionError msg), [''o/m.h'' \<mapsto> ''old'']))"
proof -
  have h: "dtype_of \<lparr>shape = [2], elems = Others ''int16'' [[1, 0], [2, 0]]\<rparr> \<notin> {float32, int8, uint8, uint32}"
    by (simp add: dtype_of_def)
  from unsupported_kind_atomic [OF h] h show ?thesis by blast
qed

text \<open>
  C6. A well-formed array of a supported kind with no element gets the initializer
  \<open>{}\<close>: the opening line ends with \<open>{\<close> and the text written after it is \<open>};\<close>
  and the blank line, with no literal and no comma. The dump, when \<open>debug\<close> is set,
  comes after it.
\<close>

theorem empty_array:
  assumes "dtype_of tensor_data \<in> {float32, int8, uint8, uint32}"
    and "wf_ndarray tensor_data" and "size_of tensor_data = 0"
  shows "initializer_body float_str tensor_data = (None, ''};\<newline>\<newline>'')
       \<and> debug_text float_str array_str tensor_data False weights = (None, [])
       \<and> (\<exists>ty align lead.
             resolve_type (dtype_of tensor_data) = Inr (ty, align)
           \<and> opening_line ty tensor_name section align = lead @ ''{''
           \<and> create_header_file float_str array_str name section tensor_name tensor_data output_path debug weights f
               = (fst (debug_text float_str array_str tensor_data debug weights),
                  f(raw_header_path output_path name \<mapsto>
                      content f (raw_header_path output_path name) @ header_text ty tensor_name 0,
                    raw_source_path output_path name \<mapsto>
                      (case f (raw_source_path output_path name) of
                         None \<Rightarrow> ''#include <stdint.h>\<newline>'' | Some c \<Rightarrow> c)
                      @ lead @ ''{};\<newline>\<newline>''
                      @ snd (debug_text float_str array_str tensor_data debug weights))))"
proof -
  have b: "initializer_body float_str tensor_data = (None, ''};\<newline>\<newline>'')"
  proof (cases "elems tensor_data")
    case (Float32s xs)
    with assms(2,3) have "xs = []" by (simp add: wf_ndarray_def)
    with Float32s show ?thesis by (simp add: body_float32)
  next
    case (Int8s ws)
    with assms(2,3) have "ws = []" by (simp add: wf_ndarray_def)
    with Int8s show ?thesis by (simp add: body_int8)
  next
    case (UInt8s ws)
    with assms(2,3) have "ws = []" by (simp add: wf_ndarray_def)
    with UInt8s show ?thesis by (simp add: body_uint8)
  next
    case (UInt32s vs)
    with assms(2,3) have "vs = []" by (simp add: wf_ndarray_def)
    with UInt32s show ?thesis by (simp add: body_uint32)
  next
    case (Others nm items)
    with assms(1) show ?thesis by (simp add: dtype_of_def)
  qed
  from assms(1) obtain ty align where r: "resolve_type (dtype_of tensor_data) = Inr (ty, align)"
    by (auto simp: resolve_type_def)
  obtain lead where l: "opening_line ty tensor_name section align = lead @ ''{''"
    by (cases "truthy section") (simp_all add: opening_line_def)
  from create_header_file_supported [OF r, of float_str array_str name "section" tensor_name output_path debug weights f]
    b r l assms(3)
  show ?thesis by (auto simp: debug_text_off)
qed

theorem empty_array_witness:
  "dtype_of \<lparr>shape = [0], elems = Int8s []\<rparr> \<in> {float32, int8, uint8, uint32}
   \<and> wf_ndarray \<lparr>shape = [0], elems = Int8s []\<rparr> \<and> size_of \<lparr>shape = [0], elems = Int8s []\<rparr> = 0
   \<and> initializer_body (\<lambda>w. []) \<lparr>shape = [0], elems = Int8s []\<rparr> = (None, ''};\<newline>\<newline>'')"
proof -
  have 1: "dtype_of \<lparr>shape = [0], elems = Int8s []\<rparr> \<in> {float32, int8, uint8, uint32}"
    by (simp add: dtype_of_def)
  have 2: "wf_ndarray \<lparr>shape = [0], elems = Int8s []\<rparr>"
    by (simp add: wf_ndarray_def size_of_def)
  have 3: "size_of \<lparr>shape = [0], elems = Int8s []\<rparr> = 0"
    by (simp add: size_of_def)
  from empty_array [OF 1 2 3] 1 2 3 show ?thesis by blast
qed

text \<open>
  C7. The opening line holds the \<open>aligned\<close> clause only when the section is absent or
  empty, and \<open>section("s")\<close>, with \<open>s\<close> verbatim, before the \<open>aligned\<close> clause when
  the section is a non-empty string \<open>s\<close>; this line is what the emitter appends to
  the definition file before the elements.
\<close>

theorem section_clause_gating:
  "(section = None \<or> section = Some [] \<longrightarrow>
      opening_line ty tensor_name section align
        = ty @ '' '' @ tensor_name @ ''[] __attribute__((aligned('' @ str_nat align @ ''))) = {'')
   \<and> (\<forall>s. section = Some s \<and> s \<noteq> [] \<longrightarrow>
      opening_line ty tensor_name section align
        = ty @ '' '' @ tensor_name @ ''[] __attribute__((section('' @ [CHR 0x22] @ s @ [CHR 0x22]
          @ ''), aligned('' @ str_nat align @ ''))) = {'')
   \<and> (resolve_type (dtype_of tensor_data) = Inr (ty, align) \<longrightarrow>
      (\<exists>err f'. create_header_file float_str array_str name section tensor_name tensor_data output_path debug weights f = (err, f')
         \<and> f' (raw_source_path output_path name)
            = Some ((case f (raw_source_path output_path name) of
                       None \<Rightarrow> ''#include <stdint.h>\<newline>'' | Some c \<Rightarrow> c)
                    @ opening_line ty tensor_name section align
                    @ snd (initializer_body float_str tensor_data)
                    @ snd (debug_text float_str array_str tensor_data debug weights))))"
proof (intro conjI allI impI)
  assume "section = None \<or> section = Some []"
  then show "opening_line ty tensor_name section align
        = ty @ '' '' @ tensor_name @ ''[] __attribute__((aligned('' @ str_nat align @ ''))) = {''"
    by (auto simp: opening_line_def truthy_def)
next
  fix s
  assume "section = Some s \<and> s \<noteq> []"
  then show "opening_line ty tensor_name section align
        = ty @ '' '' @ tensor_name @ ''[] __attribute__((section('' @ [CHR 0x22] @ s @ [CHR 0x22]
          @ ''), aligned('' @ str_nat align @ ''))) = {''"
    by (simp add: opening_line_def truthy_def dquote_def)
next
  assume r: "resolve_type (dtype_of tensor_data) = Inr (ty, align)"
  show "\<exists>err f'. create_header_file float_str array_str name section tensor_name tensor_data output_path debug weights f = (err, f')
         \<and> f' (raw_source_path output_path name)
            = Some ((case f (raw_source_path output_path name) of
                       None \<Rightarrow> ''#include <stdint.h>\<newline>'' | Some c \<Rightarrow> c)
                    @ opening_line ty tensor_name section align
                    @ snd (initializer_body float_str tensor_data)
                    @ snd (debug_text float_str array_str tensor_data debug weights))"
    by (simp add: create_header_file_supported [OF r])
qed

theorem section_clause_gating_witness:
  "opening_line ''int8_t'' ''t'' (Some []) 16 = ''int8_t t[] __attribute__((aligned(16))) = {''
   \<and> opening_line ''int8_t'' ''t'' None 16 = ''int8_t t[] __attribute__((aligned(16))) = {''
   \<and> opening_line ''int8_t'' ''t'' (Some ''custom'') 16
       = ''int8_t t[] __attribute__((section('' @ [CHR 0x22] @ ''custom'' @ [CHR 0x22] @ ''), aligned(16))) = {''
   \<and> resolve_type (dtype_of \<lparr>shape = [1], elems = Int8s [5]\<rparr>) = Inr (''int8_t'', 16)
   \<and> (\<exists>err f'. create_header_file (\<lambda>w. []) (\<lambda>a. []) ''m'' (Some ''custom'') ''t''
                   \<lparr>shape = [1], elems = Int8s [5]\<rparr> ''o'' False None Map.empty = (err, f')
         \<and> f' ''o/m.c'' = Some (''#include <stdint.h>\<newline>int8_t t[] __attribute__((section('' @ [CHR 0x22] @ ''custom'' @ [CHR 0x22] @ ''), aligned(16))) = {+0x05};\<newline>\<newline>''))"
proof -
  have r: "resolve_type (dtype_of \<lparr>shape = [1], elems = Int8s [5]\<rparr>) = Inr (''int8_t'', 16)"
    by (simp add: dtype_of_def resolve_type_def)
  have p: "raw_source_path ''o'' ''m'' = ''o/m.c''"
    by (simp add: eval_defs)
  have b: "\<And>sh. initializer_body (\<lambda>w. []) \<lparr>shape = sh, elems = Int8s [5]\<rparr> = (None, ''+0x05};\<newline>\<newline>'')"
    by (simp add: eval_defs upt_rec)
  have n: "str_nat 16 = ''16''"
    by (simp add: eval_defs)
  have 1: "opening_line ''int8_t'' ''t'' (Some []) 16 = ''int8_t t[] __attribute__((aligned(16))) = {''"
    using section_clause_gating [of "Some []" "''int8_t''" "''t''" 16] by (simp add: n)
  have 2: "opening_line ''int8_t'' ''t'' None 16 = ''int8_t t[] __attribute__((aligned(16))) = {''"
    using section_clause_gating [of None "''int8_t''" "''t''" 16] by (simp add: n)
  have 3: "opening_line ''int8_t'' ''t'' (Some ''custom'') 16
       = ''int8_t t[] __attribute__((section('' @ [CHR 0x22] @ ''custom'' @ [CHR 0x22] @ ''), aligned(16))) = {''"
    using section_clause_gating [of "Some ''custom''" "''int8_t''" "''t''" 16] by (simp add: n)
  have 4: "\<exists>err f'. create_header_file (\<lambda>w. []) (\<lambda>a. []) ''m'' (Some ''custom'') ''t''
                   \<lparr>shape = [1], elems = Int8s [5]\<rparr> ''o'' False None Map.empty = (err, f')
         \<and> f' ''o/m.c'' = Some (''#include <stdint.h>\<newline>int8_t t[] __attribute__((section('' @ [CHR 0x22] @ ''custom'' @ [CHR 0x22] @ ''), aligned(16))) = {+0x05};\<newline>\<newline>'')"
    using section_clause_gating [of "Some ''custom''" "''int8_t''" "''t''" 16 "\<lparr>shape = [1], elems = Int8s [5]\<rparr>"
        "\<lambda>w. []" "\<lambda>a. []" "''m''" "''o''" False None Map.empty] r
    by (simp add: p b n 3 debug_text_off)
  from 1 2 3 4 r show ?thesis by blast
qed

text \<open>
  C8. The emitter resolves \<open>float32\<close> to \<open>float\<close> and 32, \<open>int8\<close> to \<open>int8_t\<close> and 16,
  \<open>uint8\<close> to \<open>uint8_t\<close> and 16, \<open>uint32\<close> to \<open>uint32_t\<close> and 16; the type name is the
  one of the \<open>extern\<close> declaration and of the definition, the alignment the one of
  the \<open>aligned\<close> clause.
\<close>

theorem kind_mapping:
  "resolve_type float32 = Inr (''float'', 32)
   \<and> resolve_type int8 = Inr (''int8_t'', 16)
   \<and> resolve_type uint8 = Inr (''uint8_t'', 16)
   \<and> resolve_type uint32 = Inr (''uint32_t'', 16)
   \<and> str_nat 32 = ''32'' \<and> str_nat 16 = ''16''
   \<and> (resolve_type (dtype_of tensor_data) = Inr (ty, align) \<longrightarrow>
      (\<exists>err f'. create_header_file float_str array_str name section tensor_name tensor_data output_path debug weights f = (err, f')
         \<and> f' (raw_header_path output_path name)
            = Some (content f (raw_header_path output_path name)
                    @ ''#define '' @ tensor_name @ ''_len '' @ str_nat (size_of tensor_data) @ ''\<newline>''
                    @ ''extern '' @ ty @ '' '' @ tensor_name @ ''['' @ tensor_name @ ''_len];\<newline>'')
         \<and> f' (raw_source_path output_path name)
            = Some ((case f (raw_source_path output_path name) of
                       None \<Rightarrow> ''#include <stdint.h>\<newline>'' | Some c \<Rightarrow> c)
                    @ ty @ '' '' @ tensor_name @ ''[] __attribute__((''
                    @ (if truthy section then ''section('' @ [CHR 0x22] @ the section @ [CHR 0x22] @ ''), '' else [])
                    @ ''aligned('' @ str_nat align @ ''))) = {''
                    @ snd (initializer_body float_str tensor_data)
                    @ snd (debug_text float_str array_str tensor_data debug weights))))"
proof (intro conjI impI)
  assume r: "resolve_type (dtype_of tensor_data) = Inr (ty, align)"
  have "raw_source_path output_path name \<noteq> raw_header_path output_path name"
    using paths_distinct [of output_path name] by simp
  then show "\<exists>err f'. create_header_file float_str array_str name section tensor_name tensor_data output_path debug weights f = (err, f')
         \<and> f' (raw_header_path output_path name)
            = Some (content f (raw_header_path output_path name)
                    @ ''#define '' @ tensor_name @ ''_len '' @ str_nat (size_of tensor_data) @ ''\<newline>''
                    @ ''extern '' @ ty @ '' '' @ tensor_name @ ''['' @ tensor_name @ ''_len];\<newline>'')
         \<and> f' (raw_source_path output_path name)
            = Some ((case f (raw_source_path output_path name) of
                       None \<Rightarrow> ''#include <stdint.h>\<newline>'' | Some c \<Rightarrow> c)
                    @ ty @ '' '' @ tensor_name @ ''[] __attribute__((''
                    @ (if truthy section then ''section('' @ [CHR 0x22] @ the section @ [CHR 0x22] @ ''), '' else [])
                    @ ''aligned('' @ str_nat align @ ''))) = {''
                    @ snd (initializer_body float_str tensor_data)
                    @ snd (debug_text float_str array_str tensor_data debug weights))"
    by (simp add: create_header_file_supported [OF r] header_text_def opening_line_def dquote_def)
qed (simp_all add: resolve_type_def str_nat.simps digit_char_def)

theorem kind_mapping_witness:
  "resolve_type (dtype_of \<lparr>shape = [2], elems = Float32s [0, 1]\<rparr>) = Inr (''float'', 32)
   \<and> (\<exists>err f'. create_header_file (\<lambda>w. ''0.0'') (\<lambda>a. []) ''m'' None ''t''
                   \<lparr>shape = [2], elems = Float32s [0, 1]\<rparr> ''o'' False None Map.empty = (err, f')
         \<and> f' ''o/m.h'' = Some ''#define t_len 2\<newline>extern float t[t_len];\<newline>''
         \<and> f' ''o/m.c'' = Some ''#include <stdint.h>\<newline>float t[] __attribute__((aligned(32))) = {0.0,0.0,};\<newline>\<newline>'')"
proof -
  have r: "resolve_type (dtype_of \<lparr>shape = [2], elems = Float32s [0, 1]\<rparr>) = Inr (''float'', 32)"
    by (simp add: dtype_of_def resolve_type_def)
  have p: "raw_source_path ''o'' ''m'' = ''o/m.c''" "raw_header_path ''o'' ''m'' = ''o/m.h''"
    by (simp_all add: eval_defs)
  have b: "initializer_body (\<lambda>w. ''0.0'') \<lparr>shape = [2], elems = Float32s [0, 1]\<rparr> = (None, ''0.0,0.0,};\<newline>\<newline>'')"
    by (simp add: eval_defs)
  have n: "str_nat 32 = ''32''" "str_nat 2 = ''2''"
    by (simp_all add: eval_defs)
  have s: "size_of \<lparr>shape = [2], elems = Float32s [0, 1]\<rparr> = 2"
    by (simp add: size_of_def)
  have "\<exists>err f'. create_header_file (\<lambda>w. ''0.0'') (\<lambda>a. []) ''m'' None ''t''
                   \<lparr>shape = [2], elems = Float32s [0, 1]\<rparr> ''o'' False None Map.empty = (err, f')
         \<and> f' ''o/m.h'' = Some ''#define t_len 2\<newline>extern float t[t_len];\<newline>''
         \<and> f' ''o/m.c'' = Some ''#include <stdint.h>\<newline>float t[] __attribute__((aligned(32))) = {0.0,0.0,};\<newline>\<newline>''"
    using kind_mapping [of "\<lparr>shape = [2], elems = Float32s [0, 1]\<rparr>" "''float''" 32 "\<lambda>w. ''0.0''" "\<lambda>a. []"
        "''m''" None "''t''" "''o''" False None Map.empty] r
    by (simp add: p b n s content_def truthy_def debug_text_off)
  with r show ?thesis by blast
qed

text \<open>
  C9. A successful call, with or without the dump, changes the two files of the
  call only, and only by appending: the declaration file grows by the \<open>#define\<close>
  line and the \<open>extern\<close> line, the definition file by one block (the opening line,
  the elements and, when \<open>debug\<close> is set, the dump), after the \<open>#include\<close> line when
  the file did not exist. A second call with the same arguments appends the same
  two lines and the same block once more, and no second \<open>#include\<close> line.
\<close>

theorem append_only:
  assumes "create_header_file float_str array_str name section tensor_name tensor_data output_path debug weights f = (None, f1)"
  shows "\<exists>ty align block.
           (\<forall>p. p \<noteq> raw_header_path output_path name \<and> p \<noteq> raw_source_path output_path name \<longrightarrow> f1 p = f p)
         \<and> f1 (raw_header_path output_path name)
             = Some (content f (raw_header_path output_path name)
                     @ ''#define '' @ tensor_name @ ''_len '' @ str_nat (size_of tensor_data) @ ''\<newline>''
                     @ ''extern '' @ ty @ '' '' @ tensor_name @ ''['' @ tensor_name @ ''_len];\<newline>'')
         \<and> block = opening_line ty tensor_name section align
                     @ snd (initializer_body float_str tensor_data)
                     @ snd (debug_text float_str array_str tensor_data debug weights)
         \<and> f1 (raw_source_path output_path name)
             = Some ((case f (raw_source_path output_path name) of
                        None \<Rightarrow> ''#include <stdint.h>\<newline>'' | Some c \<Rightarrow> c) @ block)
         \<and> create_header_file float_str array_str name section tensor_name tensor_data output_path debug weights f1
             = (None,
                f(raw_header_path output_path name \<mapsto>
                    content f (raw_header_path output_path name)
                    @ ''#define '' @ tensor_name @ ''_len '' @ str_nat (size_of tensor_data) @ ''\<newline>''
                    @ ''extern '' @ ty @ '' '' @ tensor_name @ ''['' @ tensor_name @ ''_len];\<newline>''
                    @ ''#define '' @ tensor_name @ ''_len '' @ str_nat (size_of tensor_data) @ ''\<newline>''
                    @ ''extern '' @ ty @ '' '' @ tensor_name @ ''['' @ tensor_name @ ''_len];\<newline>'',
                  raw_source_path output_path name \<mapsto>
                    (case f (raw_source_path output_path name) of
                        None \<Rightarrow> ''#include <stdint.h>\<newline>'' | Some c \<Rightarrow> c) @ block @ block))"
proof -
  let ?hp = "raw_header_path output_path name" and ?sp = "raw_source_path output_path name"
  let ?out = "snd (initializer_body float_str tensor_data) @ snd (debug_text float_str array_str tensor_data debug weights)"
  from create_header_file_success [OF assms] obtain ty align
    where r: "resolve_type (dtype_of tensor_data) = Inr (ty, align)"
      and d: "fst (debug_text float_str array_str tensor_data debug weights) = None"
    by blast
  have ne: "?hp \<noteq> ?sp" "?sp \<noteq> ?hp"
    using paths_distinct [of output_path name] by auto
  have f1: "f1 = f(?hp \<mapsto> content f ?hp @ header_text ty tensor_name (size_of tensor_data),
                   ?sp \<mapsto> (case f ?sp of None \<Rightarrow> ''#include <stdint.h>\<newline>'' | Some c \<Rightarrow> c)
                           @ opening_line ty tensor_name section align @ ?out)"
    using create_header_file_supported [OF r, of float_str array_str name "section" tensor_name output_path debug weights f]
      assms by simp
  have frame: "\<forall>p. p \<noteq> ?hp \<and> p \<noteq> ?sp \<longrightarrow> f1 p = f p"
    by (simp add: f1)
  have h1: "f1 ?hp = Some (content f ?hp @ header_text ty tensor_name (size_of tensor_data))"
    using ne by (simp add: f1)
  have s1: "f1 ?sp = Some ((case f ?sp of None \<Rightarrow> ''#include <stdint.h>\<newline>'' | Some c \<Rightarrow> c)
                           @ opening_line ty tensor_name section align @ ?out)"
    by (simp add: f1)
  have again: "create_header_file float_str array_str name section tensor_name tensor_data output_path debug weights f1
      = (None, f(?hp \<mapsto> content f ?hp @ header_text ty tensor_name (size_of tensor_data)
                           @ header_text ty tensor_name (size_of tensor_data),
                 ?sp \<mapsto> (case f ?sp of None \<Rightarrow> ''#include <stdint.h>\<newline>'' | Some c \<Rightarrow> c)
                           @ (opening_line ty tensor_name section align @ ?out)
                           @ (opening_line ty tensor_name section align @ ?out)))"
    unfolding create_header_file_supported [OF r, of float_str array_str name "section" tensor_name output_path debug weights f1]
    using ne d by (simp add: h1 s1 content_def) (simp add: f1 fun_upd_twist)
  show ?thesis
    apply (rule exI [of _ ty], rule exI [of _ align],
           rule exI [of _ "opening_line ty tensor_name section align @ ?out"])
    using frame h1 s1 again by (simp add: header_text_def)
qed

theorem append_only_witness:
  "create_header_file (\<lambda>w. []) (\<lambda>a. []) ''m'' None ''t'' \<lparr>shape = [1, 1, 2, 1], elems = UInt8s [250, 7]\<rparr> ''o''
       True None [''o/m.h'' \<mapsto> ''/* old */'']
     = (None, [''o/m.h'' \<mapsto> ''/* old */#define t_len 2\<newline>extern uint8_t t[t_len];\<newline>'',
               ''o/m.c'' \<mapsto> ''#include <stdint.h>\<newline>uint8_t t[] __attribute__((aligned(16))) = {+0xfa,+0x07};\<newline>\<newline>''
                           @ ''/*\<newline>Channel 0:\<newline>250'' @ [CHR 0x09] @ ''7'' @ [CHR 0x09] @ ''\<newline>*/\<newline>''])
   \<and> snd (create_header_file (\<lambda>w. []) (\<lambda>a. []) ''m'' None ''t'' \<lparr>shape = [1, 1, 2, 1], elems = UInt8s [250, 7]\<rparr> ''o''
       True None
       [''o/m.h'' \<mapsto> ''/* old */#define t_len 2\<newline>extern uint8_t t[t_len];\<newline>'',
        ''o/m.c'' \<mapsto> ''#include <stdint.h>\<newline>uint8_t t[] __attribute__((aligned(16))) = {+0xfa,+0x07};\<newline>\<newline>''
                    @ ''/*\<newline>Channel 0:\<newline>250'' @ [CHR 0x09] @ ''7'' @ [CHR 0x09] @ ''\<newline>*/\<newline>'']) ''o/m.c''
     = Some (''#include <stdint.h>\<newline>''
             @ ''uint8_t t[] __attribute__((aligned(16))) = {+0xfa,+0x07};\<newline>\<newline>''
             @ ''/*\<newline>Channel 0:\<newline>250'' @ [CHR 0x09] @ ''7'' @ [CHR 0x09] @ ''\<newline>*/\<newline>''
             @ ''uint8_t t[] __attribute__((aligned(16))) = {+0xfa,+0x07};\<newline>\<newline>''
             @ ''/*\<newline>Channel 0:\<newline>250'' @ [CHR 0x09] @ ''7'' @ [CHR 0x09] @ ''\<newline>*/\<newline>'')"
proof -
  let ?a = "\<lparr>shape = [1, 1, 2, 1], elems = UInt8s [250, 7]\<rparr>"
  let ?blk = "''uint8_t t[] __attribute__((aligned(16))) = {+0xfa,+0x07};\<newline>\<newline>''
                           @ ''/*\<newline>Channel 0:\<newline>250'' @ [CHR 0x09] @ ''7'' @ [CHR 0x09] @ ''\<newline>*/\<newline>''"
  let ?f0 = "[''o/m.h'' \<mapsto> ''/* old */'']"
  let ?f1 = "[''o/m.h'' \<mapsto> ''/* old */#define t_len 2\<newline>extern uint8_t t[t_len];\<newline>'',
               ''o/m.c'' \<mapsto> ''#include <stdint.h>\<newline>'' @ ?blk]"
  have p: "raw_source_path ''o'' ''m'' = ''o/m.c''" "raw_header_path ''o'' ''m'' = ''o/m.h''"
    by (simp_all add: eval_defs)
  have c: "create_header_file (\<lambda>w. []) (\<lambda>a. []) ''m'' None ''t'' ?a ''o'' True None ?f0 = (None, ?f1)"
    by (simp add: eval_defs dump_defs upt_rec)
  from append_only [OF c] obtain ty align block where
    s: "?f1 (raw_source_path ''o'' ''m'') = Some ((case ?f0 (raw_source_path ''o'' ''m'') of
                        None \<Rightarrow> ''#include <stdint.h>\<newline>'' | Some c \<Rightarrow> c) @ block)"
    and t: "create_header_file (\<lambda>w. []) (\<lambda>a. []) ''m'' None ''t'' ?a ''o'' True None ?f1
             = (None,
                ?f0(raw_header_path ''o'' ''m'' \<mapsto>
                    content ?f0 (raw_header_path ''o'' ''m'')
                    @ ''#define '' @ ''t'' @ ''_len '' @ str_nat (size_of ?a) @ ''\<newline>''
                    @ ''extern '' @ ty @ '' '' @ ''t'' @ ''['' @ ''t'' @ ''_len];\<newline>''
                    @ ''#define '' @ ''t'' @ ''_len '' @ str_nat (size_of ?a) @ ''\<newline>''
                    @ ''extern '' @ ty @ '' '' @ ''t'' @ ''['' @ ''t'' @ ''_len];\<newline>'',
                  raw_source_path ''o'' ''m'' \<mapsto>
                    (case ?f0 (raw_source_path ''o'' ''m'') of
                        None \<Rightarrow> ''#include <stdint.h>\<newline>'' | Some c \<Rightarrow> c) @ block @ block))"
    by blast
  from s have blk: "block = ?blk"
    by (simp add: p)
  from t have "snd (create_header_file (\<lambda>w. []) (\<lambda>a. []) ''m'' None ''t'' ?a ''o'' True None ?f1) ''o/m.c''
     = Some (''#include <stdint.h>\<newline>'' @ block @ block)"
    by (simp add: p)
  with c blk show ?thesis by simp
qed

text \<open>
  C10. For every negative \<open>int8\<close> element the magnitude \<open>(~v) + 1\<close> fits one unsigned
  byte, so the conversion of line 113 does not raise; at \<open>-128\<close> it is \<open>128\<close> and the
  literal written is \<open>-0x80\<close>.
\<close>

theorem most_negative_byte:
  "(\<forall>w :: 8 word. sint w < 0 \<longrightarrow> to_bytes1 (NOT (sint w) + 1) = Inr [word_of_int (- sint w)])
   \<and> sint (word_of_int (- 128) :: 8 word) = - 128
   \<and> NOT (- 128 :: int) + 1 = 128
   \<and> to_bytes1 128 = Inr [128]
   \<and> initializer_body float_str \<lparr>shape = [1], elems = Int8s [word_of_int (- 128)]\<rparr>
       = (None, ''-0x80};\<newline>\<newline>'')"
proof -
  have a: "\<forall>w :: 8 word. sint w < 0 \<longrightarrow> to_bytes1 (NOT (sint w) + 1) = Inr [word_of_int (- sint w)]"
  proof (intro allI impI)
    fix w :: "8 word"
    assume "sint w < 0"
    from to_bytes1_neg [OF this] show "to_bytes1 (NOT (sint w) + 1) = Inr [word_of_int (- sint w)]"
      by (simp add: not_int_def)
  qed
  have b: "initializer_body float_str \<lparr>shape = [1], elems = Int8s [word_of_int (- 128)]\<rparr>
       = (None, ''-0x80};\<newline>\<newline>'')"
    by (simp add: eval_defs upt_rec)
  show ?thesis using a b by (simp add: to_bytes1_def)
qed

theorem most_negative_byte_witness:
  "sint (128 :: 8 word) < 0 \<and> to_bytes1 (NOT (sint (128 :: 8 word)) + 1) = Inr [128]"
  using most_negative_byte by simp

end
